theory Spec2Isabelle
  imports Complex_Main "HOL-Library.Sublist"
begin

section \<open>Python values and the operations the script applies to them\<close>

text \<open>
  The script \<^verbatim>\<open>.github/scripts/gemini_issue_triage.py\<close> works on whatever
  \<^verbatim>\<open>resp.json()\<close> returns, without checking its shape. The values a JSON body
  parses to are modelled as they are in Python: \<^verbatim>\<open>None\<close>, booleans, integers,
  floats, strings, lists and dictionaries with string keys (an association list, looked
  up with \<open>map_of\<close>). A string is a \<open>char list\<close>; text beyond ASCII is held as its
  UTF-8 bytes. The substring tests of the script have ASCII needles, and a match of
  well-formed UTF-8 in well-formed UTF-8 is a match of code points.
\<close>

datatype pyfloat = Finite rat | PosInf | NegInf | NaN

datatype pyval =
    PNone
  | PBool bool
  | PInt int
  | PFloat pyfloat
  | PStr string
  | PList "pyval list"
  | PDict "(string \<times> pyval) list"

text \<open>
  Exceptions are values. Each carries the text that \<^verbatim>\<open>str(exc)\<close> gives. The first
  three are raised by the \<^verbatim>\<open>requests\<close> library (every failure of the transport is a
  \<^verbatim>\<open>RequestException\<close>), the others by the interpreter, with the texts of
  CPython 3.12. All of them are subclasses of \<^verbatim>\<open>Exception\<close>.
\<close>

datatype exn =
    RequestException string
  | HTTPError string
  | JSONDecodeError string
  | AttributeError string
  | TypeError string
  | KeyError string
  | IndexError string

fun str_exn :: "exn \<Rightarrow> string" where
  "str_exn (RequestException s) = s"
| "str_exn (HTTPError s) = s"
| "str_exn (JSONDecodeError s) = s"
| "str_exn (AttributeError s) = s"
| "str_exn (TypeError s) = s"
| "str_exn (KeyError s) = s"
| "str_exn (IndexError s) = s"

text \<open>A computation that may raise: \<open>Inl\<close> is the exception, \<open>Inr\<close> the value.\<close>

type_synonym 'a result = "exn + 'a"

definition and_then :: "'a result \<Rightarrow> ('a \<Rightarrow> 'b result) \<Rightarrow> 'b result" where
  "and_then r f = (case r of Inl e \<Rightarrow> Inl e | Inr v \<Rightarrow> f v)"

fun type_name :: "pyval \<Rightarrow> string" where
  "type_name PNone = ''NoneType''"
| "type_name (PBool _) = ''bool''"
| "type_name (PInt _) = ''int''"
| "type_name (PFloat _) = ''float''"
| "type_name (PStr _) = ''str''"
| "type_name (PList _) = ''list''"
| "type_name (PDict _) = ''dict''"

text \<open>Truth value of an object, as \<^verbatim>\<open>if x\<close>, \<^verbatim>\<open>x and y\<close>, \<^verbatim>\<open>x or y\<close> test it.\<close>

fun truthy :: "pyval \<Rightarrow> bool" where
  "truthy PNone = False"
| "truthy (PBool b) = b"
| "truthy (PInt i) = (i \<noteq> 0)"
| "truthy (PFloat (Finite q)) = (q \<noteq> 0)"
| "truthy (PFloat _) = True"
| "truthy (PStr s) = (s \<noteq> [])"
| "truthy (PList xs) = (xs \<noteq> [])"
| "truthy (PDict kvs) = (kvs \<noteq> [])"

text \<open>\<^verbatim>\<open>x.get(key, default)\<close>: only a dictionary has the method.\<close>

fun dict_get :: "pyval \<Rightarrow> string \<Rightarrow> pyval \<Rightarrow> pyval result" where
  "dict_get (PDict kvs) k d = Inr (case map_of kvs k of None \<Rightarrow> d | Some v \<Rightarrow> v)"
| "dict_get v k d =
     Inl (AttributeError ([CHR 0x27] @ type_name v @ ''' object has no attribute 'get'' @ [CHR 0x27]))"

text \<open>
  Characters of a string, as iteration and indexing give them: one string per code
  point, that is a leading byte with the continuation bytes (\<open>10xxxxxx\<close>) after it.
\<close>

definition is_continuation :: "char \<Rightarrow> bool" where
  "is_continuation c = ((of_char c :: nat) div 64 = 2)"

function code_points :: "string \<Rightarrow> string list" where
  "code_points [] = []"
| "code_points (c # cs) =
     (c # takeWhile is_continuation cs) # code_points (dropWhile is_continuation cs)"
  by pat_completeness auto
termination
  by (relation "measure length") (auto simp: length_dropWhile_le less_Suc_eq_le)

text \<open>
  \<^verbatim>\<open>for x in v\<close>: a list gives its elements, a string its characters (each a string
  of length one), a dictionary its keys; anything else is not iterable.
\<close>

fun iterate :: "pyval \<Rightarrow> pyval list result" where
  "iterate (PList xs) = Inr xs"
| "iterate (PStr s) = Inr (map PStr (code_points s))"
| "iterate (PDict kvs) = Inr (map (\<lambda>kv. PStr (fst kv)) kvs)"
| "iterate v = Inl (TypeError ([CHR 0x27] @ type_name v @ ''' object is not iterable''))"

text \<open>
  \<^verbatim>\<open>needle in v\<close> for a string \<^verbatim>\<open>needle\<close>: substring test on a string, membership
  (by equality) in a list, key membership in a dictionary; anything else raises.
\<close>

fun contains :: "string \<Rightarrow> pyval \<Rightarrow> bool result" where
  "contains needle (PStr s) = Inr (sublist needle s)"
| "contains needle (PList xs) = Inr (PStr needle \<in> set xs)"
| "contains needle (PDict kvs) = Inr (needle \<in> fst ` set kvs)"
| "contains needle v =
     Inl (TypeError (''argument of type '' @ [CHR 0x27] @ type_name v @ ''' is not iterable''))"

text \<open>\<^verbatim>\<open>v["key"]\<close> and \<^verbatim>\<open>v[0]\<close>. A dictionary parsed from JSON has string keys only.\<close>

fun subscript_key :: "pyval \<Rightarrow> string \<Rightarrow> pyval result" where
  "subscript_key (PDict kvs) k =
     (case map_of kvs k of
        None \<Rightarrow> Inl (KeyError ([CHR 0x27] @ k @ [CHR 0x27]))
      | Some v \<Rightarrow> Inr v)"
| "subscript_key (PList xs) k = Inl (TypeError ''list indices must be integers or slices, not str'')"
| "subscript_key (PStr s) k =
     Inl (TypeError (''string indices must be integers, not '' @ [CHR 0x27] @ ''str'' @ [CHR 0x27]))"
| "subscript_key v k = Inl (TypeError ([CHR 0x27] @ type_name v @ ''' object is not subscriptable''))"

fun subscript_0 :: "pyval \<Rightarrow> pyval result" where
  "subscript_0 (PList []) = Inl (IndexError ''list index out of range'')"
| "subscript_0 (PList (x # xs)) = Inr x"
| "subscript_0 (PStr []) = Inl (IndexError ''string index out of range'')"
| "subscript_0 (PStr (c # cs)) = Inr (PStr (c # takeWhile is_continuation cs))"
| "subscript_0 (PDict kvs) = Inl (KeyError ''0'')"
| "subscript_0 v = Inl (TypeError ([CHR 0x27] @ type_name v @ ''' object is not subscriptable''))"

section \<open>The world outside: environment variables and HTTP\<close>

text \<open>
  What the script reads of a \<^verbatim>\<open>requests.Response\<close>: the status code, the body as
  text, the result of \<^verbatim>\<open>.json()\<close> (the parsed body, or the exception of the parser)
  and the message \<^verbatim>\<open>raise_for_status\<close> would raise with.
\<close>

record response =
  status_code :: int
  resp_text :: string
  resp_json :: "pyval result"
  http_error_msg :: string

text \<open>
  \<^verbatim>\<open>Response.raise_for_status\<close> of the \<^verbatim>\<open>requests\<close> library: it raises
  \<^verbatim>\<open>HTTPError\<close> for a status from 400 to 599 and returns otherwise.
\<close>

definition raise_for_status :: "response \<Rightarrow> unit result" where
  "raise_for_status r =
     (if 400 \<le> status_code r \<and> status_code r < 600
      then Inl (HTTPError (http_error_msg r)) else Inr ())"

text \<open>
  The world answers every request: \<open>http_get\<close> and \<open>http_post\<close> give the response or
  the exception that \<^verbatim>\<open>requests.get\<close> and \<^verbatim>\<open>requests.post\<close> raise (connection
  failure, timeout, ...). \<open>py_str\<close> is the interpreter's \<^verbatim>\<open>str()\<close> on values other
  than strings, by which \<^verbatim>\<open>format\<close> and f-strings render them.
\<close>

record world =
  environ :: "string \<rightharpoonup> string"
  http_get :: "string \<Rightarrow> response result"
  http_post :: "string \<Rightarrow> (string \<times> string) list \<Rightarrow> pyval \<Rightarrow> response result"
  py_str :: "pyval \<Rightarrow> string"

definition render :: "world \<Rightarrow> pyval \<Rightarrow> string" where
  "render w v = (case v of PStr s \<Rightarrow> s | _ \<Rightarrow> py_str w v)"

text \<open>What a run does that can be observed, in order.\<close>

datatype event =
    Print string
  | HttpGet string
  | HttpPost string "(string \<times> string) list" pyval

section \<open>discover_model\<close>

definition PREFERRED_MODEL :: string where
  "PREFERRED_MODEL = ''models/gemini-2.5-flash''"

definition LIST_URL :: string where
  "LIST_URL = ''https://generativelanguage.googleapis.com/v1beta/models''"

text \<open>\<^verbatim>\<open>any("generateContent" in m for m in methods)\<close> stops at the first hit.\<close>

fun any_generate :: "pyval list \<Rightarrow> bool result" where
  "any_generate [] = Inr False"
| "any_generate (m # ms) =
     and_then (contains ''generateContent'' m)
       (\<lambda>hit. if hit then Inr True else any_generate ms)"

definition supports_generate :: "pyval \<Rightarrow> bool result" where
  "supports_generate model =
     and_then (dict_get model ''supportedGenerationMethods'' (PList []))
       (\<lambda>v. let methods = (if truthy v then v else PList [])
            in and_then (iterate methods) any_generate)"

text \<open>
  Line 23:
  \<^verbatim>\<open>names = [m.get("name") for m in models if m.get("name") and supports_generate(m)]\<close>.
  \<open>is_candidate\<close> is the truth value of the condition; \<^verbatim>\<open>and\<close> does not evaluate
  its right side when the left is false.
\<close>

definition is_candidate :: "pyval \<Rightarrow> bool result" where
  "is_candidate m =
     and_then (dict_get m ''name'' PNone)
       (\<lambda>nm. if truthy nm then supports_generate m else Inr False)"

fun collect_names :: "pyval list \<Rightarrow> pyval list result" where
  "collect_names [] = Inr []"
| "collect_names (m # ms) =
     and_then (is_candidate m) (\<lambda>keep.
       if keep
       then and_then (dict_get m ''name'' PNone) (\<lambda>nm.
            and_then (collect_names ms) (\<lambda>rest. Inr (nm # rest)))
       else collect_names ms)"

text \<open>Lines 25 to 27: \<^verbatim>\<open>[n for n in names if needle in n]\<close>.\<close>

fun names_containing :: "string \<Rightarrow> pyval list \<Rightarrow> pyval list result" where
  "names_containing needle [] = Inr []"
| "names_containing needle (n # ns) =
     and_then (contains needle n) (\<lambda>hit.
     and_then (names_containing needle ns) (\<lambda>rest.
       Inr (if hit then n # rest else rest)))"

text \<open>Lines 25 to 35: the three lists are built, then the first name is chosen.\<close>

definition choose_name :: "pyval list \<Rightarrow> pyval result" where
  "choose_name names =
     and_then (names_containing ''gemini-2.5-flash'' names) (\<lambda>flash_25.
     and_then (names_containing ''flash'' names) (\<lambda>flash_any.
     and_then (names_containing ''pro'' names) (\<lambda>pro_any.
       Inr (case flash_25 of n # _ \<Rightarrow> n | [] \<Rightarrow>
           (case flash_any of n # _ \<Rightarrow> n | [] \<Rightarrow>
           (case pro_any of n # _ \<Rightarrow> n | [] \<Rightarrow>
           (case names of n # _ \<Rightarrow> n | [] \<Rightarrow> PStr PREFERRED_MODEL)))))))"

text \<open>Lines 19 to 35, from the value of \<^verbatim>\<open>models\<close> to the returned name.\<close>

definition select_model :: "pyval \<Rightarrow> pyval result" where
  "select_model models =
     and_then (iterate models) (\<lambda>ms.
     and_then (collect_names ms) choose_name)"

text \<open>Lines 15 to 17: the request, the status check, the parse, the \<^verbatim>\<open>models\<close> entry.\<close>

definition fetch_models :: "world \<Rightarrow> string \<Rightarrow> pyval result" where
  "fetch_models w api_key =
     and_then (http_get w (LIST_URL @ ''?key='' @ api_key)) (\<lambda>resp.
     and_then (raise_for_status resp) (\<lambda>_.
     and_then (resp_json resp) (\<lambda>body.
       dict_get body ''models'' (PList []))))"

text \<open>The body of the \<^verbatim>\<open>try\<close>.\<close>

definition discover_try :: "world \<Rightarrow> string \<Rightarrow> pyval result" where
  "discover_try w api_key = and_then (fetch_models w api_key) select_model"

definition warning :: "exn \<Rightarrow> string" where
  "warning exc =
     ''Warning: model discovery failed, defaulting to '' @ PREFERRED_MODEL
       @ ''. Error: '' @ str_exn exc"

text \<open>
  The function: \<^verbatim>\<open>except Exception\<close> catches every exception of the \<^verbatim>\<open>try\<close>, prints
  the warning and returns the constant. The result is the returned value and the events
  of the call.
\<close>

definition discover_model :: "world \<Rightarrow> string \<Rightarrow> pyval \<times> event list" where
  "discover_model w api_key =
     (case discover_try w api_key of
        Inr v \<Rightarrow> (v, [HttpGet (LIST_URL @ ''?key='' @ api_key)])
      | Inl exc \<Rightarrow>
          (PStr PREFERRED_MODEL,
           [HttpGet (LIST_URL @ ''?key='' @ api_key), Print (warning exc)]))"

section \<open>main\<close>

definition GENERATE_PATH :: "string \<Rightarrow> string" where
  \<comment> \<open>\<^verbatim>\<open>GENERATE_PATH.format(model=...)\<close>, the argument already rendered\<close>
  "GENERATE_PATH model =
     ''https://generativelanguage.googleapis.com/v1beta/'' @ model @ '':generateContent''"

definition newline :: string where
  "newline = [CHR 0x0A]"

definition system_instruction :: string where
  \<comment> \<open>the dash after \<^verbatim>\<open>only\<close> is U+2014\<close>
  "system_instruction =
     ''You are a senior technical project manager. The repository is an iOS SwiftUI app (ohMyTss) that syncs ''
     @ ''HealthKit + Strava workouts, computes TSS/CTL/ATL/TSB, Body Battery readiness, and shows Today/History ''
     @ ''views. When triaging issues, capture steps to reproduce, expected vs. actual, data sources affected ''
     @ ''(HealthKit/Strava), and any tests to add (unit/UI). Output a clear Markdown checklist only''
     @ [CHR 0xE2, CHR 0x80, CHR 0x94] @ ''no intro text.''"

definition comment_header :: string where
  \<comment> \<open>the sign after the hashes is U+264A\<close>
  "comment_header =
     ''### '' @ [CHR 0xE2, CHR 0x99, CHR 0x8A] @ '' Gemini Action Plan'' @ newline @ newline"

text \<open>
  How a run of \<^verbatim>\<open>main\<close> ends: it returns, \<^verbatim>\<open>sys.exit(n)\<close> is called, or an
  exception leaves it. The interpreter turns that into the exit status of the process:
  0 after a return, \<open>n\<close> after \<^verbatim>\<open>sys.exit(n)\<close>, 1 after an uncaught exception.
\<close>

datatype outcome = Returned | SysExit int | Uncaught exn

fun exit_status :: "outcome \<Rightarrow> int" where
  "exit_status Returned = 0"
| "exit_status (SysExit n) = n"
| "exit_status (Uncaught e) = 1"

definition env_get :: "world \<Rightarrow> string \<Rightarrow> string \<Rightarrow> string" where
  \<comment> \<open>\<^verbatim>\<open>os.environ.get(key, default)\<close>\<close>
  "env_get w k d = (case environ w k of None \<Rightarrow> d | Some v \<Rightarrow> v)"

type_synonym request = "string \<times> (string \<times> string) list \<times> pyval"

definition post :: "world \<Rightarrow> request \<Rightarrow> response result" where
  \<comment> \<open>\<^verbatim>\<open>requests.post(url, headers=headers, json=payload, timeout=...)\<close>\<close>
  "post w req = (case req of (url, headers, payload) \<Rightarrow> http_post w url headers payload)"

definition sent :: "request \<Rightarrow> event" where
  "sent req = (case req of (url, headers, payload) \<Rightarrow> HttpPost url headers payload)"

text \<open>Lines 54 to 74: the url, the headers and the payload of the generation request.\<close>

definition generation_request :: "world \<Rightarrow> string \<Rightarrow> pyval \<Rightarrow> request" where
  "generation_request w api_key model_name =
     (let issue_title = env_get w ''ISSUE_TITLE'' '''';
          issue_body = env_get w ''ISSUE_BODY'' '''';
          url = GENERATE_PATH (render w model_name) @ ''?key='' @ api_key;
          user_content = ''Title: '' @ issue_title @ newline @ newline
                           @ ''Description:'' @ newline @ issue_body;
          payload = PDict [(''contents'', PList [PDict [(''parts'', PList
                      [PDict [(''text'', PStr (system_instruction @ newline @ newline
                                               @ user_content))]])]])];
          headers = [(''Content-Type'', ''application/json'')]
      in (url, headers, payload))"

text \<open>Line 83: \<^verbatim>\<open>result["candidates"][0]["content"]["parts"][0]["text"]\<close>.\<close>

definition extract_text :: "pyval \<Rightarrow> pyval result" where
  "extract_text result =
     and_then (subscript_key result ''candidates'') (\<lambda>a.
     and_then (subscript_0 a) (\<lambda>b.
     and_then (subscript_key b ''content'') (\<lambda>c.
     and_then (subscript_key c ''parts'') (\<lambda>d.
     and_then (subscript_0 d) (\<lambda>e.
       subscript_key e ''text'')))))"

text \<open>Lines 88 to 93: the url, the headers and the body of the comment request.\<close>

definition comment_request :: "world \<Rightarrow> string \<Rightarrow> pyval \<Rightarrow> request" where
  "comment_request w gh_token ai_checklist =
     (let repo = env_get w ''REPO_FULL_NAME'' '''';
          issue_number = env_get w ''ISSUE_NUMBER'' '''';
          gh_headers = [(''Authorization'', ''Bearer '' @ gh_token),
                        (''Accept'', ''application/vnd.github.v3+json'')];
          comment_url = ''https://api.github.com/repos/'' @ repo @ ''/issues/''
                          @ issue_number @ ''/comments'';
          comment_data = PDict [(''body'', PStr (comment_header @ render w ai_checklist))]
      in (comment_url, gh_headers, comment_data))"

text \<open>Lines 95 to 98: the comment is posted and its status checked.\<close>

definition post_comment :: "world \<Rightarrow> string \<Rightarrow> pyval \<Rightarrow> event list \<Rightarrow> outcome \<times> event list" where
  "post_comment w gh_token ai_checklist before =
     (let req = comment_request w gh_token ai_checklist;
          trace = before @ [Print ''Posting to GitHub...'', sent req]
      in case post w req of
           Inl exc \<Rightarrow> (Uncaught exc, trace)
         | Inr gh_response \<Rightarrow>
             (case raise_for_status gh_response of
                Inl exc \<Rightarrow> (Uncaught exc, trace)
              | Inr _ \<Rightarrow> (Returned, trace @ [Print ''Done!''])))"

text \<open>
  Lines 53 to 86: the model is chosen, the generation request sent, its status checked
  and the text taken out of the body. \<^verbatim>\<open>response.json()\<close> is outside the
  \<^verbatim>\<open>try\<close>; the handler catches \<^verbatim>\<open>KeyError\<close>, \<^verbatim>\<open>IndexError\<close> and
  \<^verbatim>\<open>TypeError\<close> only.
\<close>

definition generate :: "world \<Rightarrow> string \<Rightarrow> string \<Rightarrow> outcome \<times> event list" where
  "generate w api_key gh_token =
     (let (model_name, discovered) = discover_model w api_key;
          req = generation_request w api_key model_name;
          trace = discovered @
                  [Print (''Sending request to Gemini with model: '' @ render w model_name @ '' ...''),
                   sent req]
      in case post w req of
           Inl exc \<Rightarrow> (Uncaught exc, trace)
         | Inr response \<Rightarrow>
             if status_code response \<noteq> 200
             then (SysExit 1, trace @ [Print (''Error: '' @ resp_text response)])
             else (case resp_json response of
                     Inl exc \<Rightarrow> (Uncaught exc, trace)
                   | Inr result \<Rightarrow>
                       (case extract_text result of
                          Inr ai_checklist \<Rightarrow> post_comment w gh_token ai_checklist trace
                        | Inl (KeyError _) \<Rightarrow> (SysExit 1, trace @ [Print ''Error parsing Gemini response''])
                        | Inl (IndexError _) \<Rightarrow> (SysExit 1, trace @ [Print ''Error parsing Gemini response''])
                        | Inl (TypeError _) \<Rightarrow> (SysExit 1, trace @ [Print ''Error parsing Gemini response''])
                        | Inl exc \<Rightarrow> (Uncaught exc, trace))))"

text \<open>
  Lines 42 to 51: \<^verbatim>\<open>not api_key\<close> holds of an unset variable and of an empty one.
\<close>

definition main :: "world \<Rightarrow> outcome \<times> event list" where
  "main w =
     (case (environ w ''GEMINI_API_KEY'', environ w ''GITHUB_TOKEN'') of
        (Some api_key, Some gh_token) \<Rightarrow>
          if api_key = [] \<or> gh_token = []
          then (SysExit 1, [Print ''Missing GEMINI_API_KEY or GITHUB_TOKEN''])
          else generate w api_key gh_token
      | _ \<Rightarrow> (SysExit 1, [Print ''Missing GEMINI_API_KEY or GITHUB_TOKEN'']))"

section \<open>The selector as the specification words it\<close>

text \<open>
  A model descriptor of the specification is a dictionary whose \<^verbatim>\<open>name\<close>, when
  present, is a string or null, and whose \<^verbatim>\<open>supportedGenerationMethods\<close>, when
  present, is null or a list of strings. Other keys are free.
\<close>

fun is_string :: "pyval \<Rightarrow> bool" where
  "is_string (PStr s) = True"
| "is_string v = False"

fun wf_name :: "pyval option \<Rightarrow> bool" where
  "wf_name None = True"
| "wf_name (Some PNone) = True"
| "wf_name (Some (PStr s)) = True"
| "wf_name (Some v) = False"

fun wf_methods :: "pyval option \<Rightarrow> bool" where
  "wf_methods None = True"
| "wf_methods (Some PNone) = True"
| "wf_methods (Some (PList xs)) = list_all is_string xs"
| "wf_methods (Some v) = False"

fun wf_descriptor :: "pyval \<Rightarrow> bool" where
  "wf_descriptor (PDict kvs) =
     (wf_name (map_of kvs ''name'') \<and> wf_methods (map_of kvs ''supportedGenerationMethods''))"
| "wf_descriptor v = False"

fun descriptor_name :: "pyval \<Rightarrow> string" where
  \<comment> \<open>the empty string stands for no name\<close>
  "descriptor_name (PDict kvs) =
     (case map_of kvs ''name'' of Some (PStr s) \<Rightarrow> s | _ \<Rightarrow> [])"
| "descriptor_name v = []"

fun string_entries :: "pyval list \<Rightarrow> string list" where
  "string_entries [] = []"
| "string_entries (PStr s # xs) = s # string_entries xs"
| "string_entries (v # xs) = string_entries xs"

fun descriptor_methods :: "pyval \<Rightarrow> string list" where
  "descriptor_methods (PDict kvs) =
     (case map_of kvs ''supportedGenerationMethods'' of
        Some (PList xs) \<Rightarrow> string_entries xs | _ \<Rightarrow> [])"
| "descriptor_methods v = []"

text \<open>
  Step 1 of the specification: a descriptor is kept when it has a name and an entry of
  its methods contains \<^verbatim>\<open>generateContent\<close>.
\<close>

definition spec_candidate :: "pyval \<Rightarrow> bool" where
  "spec_candidate d =
     (descriptor_name d \<noteq> [] \<and>
      (\<exists>m \<in> set (descriptor_methods d). sublist ''generateContent'' m))"

definition spec_names :: "pyval list \<Rightarrow> string list" where
  "spec_names ds = map descriptor_name (filter spec_candidate ds)"

text \<open>
  Steps 2 to 5 of the specification: the three sets in priority order, the first name of
  the first set that is not empty, else the first name, else the fallback.
\<close>

definition spec_select :: "string list \<Rightarrow> string" where
  "spec_select names =
     (let flash_25 = filter (sublist ''gemini-2.5-flash'') names;
          flash_any = filter (sublist ''flash'') names;
          pro_any = filter (sublist ''pro'') names
      in if flash_25 \<noteq> [] then hd flash_25
         else if flash_any \<noteq> [] then hd flash_any
         else if pro_any \<noteq> [] then hd pro_any
         else if names \<noteq> [] then hd names
         else PREFERRED_MODEL)"

text \<open>The names the comprehension of line 23 collects from the fetched body.\<close>

definition fetched_names :: "world \<Rightarrow> string \<Rightarrow> pyval list result" where
  "fetched_names w api_key =
     and_then (fetch_models w api_key) (\<lambda>models.
     and_then (iterate models) collect_names)"

section \<open>Example responses and worlds\<close>

definition ok_response :: "pyval \<Rightarrow> response" where
  "ok_response body =
     \<lparr>status_code = 200, resp_text = [], resp_json = Inr body, http_error_msg = []\<rparr>"


definition descriptor :: "pyval \<Rightarrow> string list \<Rightarrow> pyval" where
  "descriptor nm methods =
     PDict [(''name'', nm), (''supportedGenerationMethods'', PList (map PStr methods))]"

definition listing :: "pyval list \<Rightarrow> pyval" where
  "listing ds = PDict [(''models'', PList ds)]"

definition generated :: "string \<Rightarrow> pyval" where
  "generated txt =
     PDict [(''candidates'', PList [PDict [(''content'',
       PDict [(''parts'', PList [PDict [(''text'', PStr txt)]])])]])]"

definition example_env :: "string \<rightharpoonup> string" where
  "example_env =
     map_of [(''GEMINI_API_KEY'', ''K''), (''GITHUB_TOKEN'', ''T''), (''ISSUE_TITLE'', ''crash''),
             (''ISSUE_BODY'', ''it crashes''), (''REPO_FULL_NAME'', ''o/r''),
             (''ISSUE_NUMBER'', ''7'')]"

text \<open>
  A world with the environment above, one answer to the model list request, one to the
  generation request and one to the comment request.
\<close>

definition example_world :: "response result \<Rightarrow> response result \<Rightarrow> response result \<Rightarrow> world" where
  "example_world listed answered commented =
     \<lparr>environ = example_env,
      http_get = (\<lambda>url. listed),
      http_post = (\<lambda>url headers payload.
        if prefix ''https://api.github.com/'' url then commented else answered),
      py_str = (\<lambda>v. ''?'')\<rparr>"

definition listed_world :: "pyval list \<Rightarrow> world" where
  "listed_world ds =
     example_world (Inr (ok_response (listing ds)))
       (Inr (ok_response (generated ''- [ ] reproduce'')))
       (Inr (ok_response (PDict [])))"

text \<open>Descriptor lists: generic names only, and the scenario of the specification.\<close>

definition generic_models :: "pyval list" where
  "generic_models =
     [descriptor (PStr ''models/gemini-1.0-pro'') [''generateContent''],
      descriptor (PStr ''models/gemini-1.5-flash'') [''generateContent''],
      descriptor (PStr ''models/gemini-2.0-flash'') [''generateContent'']]"

definition scenario_models :: "pyval list" where
  "scenario_models =
     [descriptor (PStr ''models/gemini-1.0-pro'') [''generateContent''],
      descriptor (PStr ''models/gemini-2.5-flash-001'') [''generateContent'']]"

text \<open>
  A descriptor with a preferred name that cannot generate, one whose method only contains
  \<^verbatim>\<open>generateContent\<close>, and one more; no candidate name has \<^verbatim>\<open>flash\<close> or
  \<^verbatim>\<open>pro\<close> in it.
\<close>

definition bison_models :: "pyval list" where
  "bison_models =
     [descriptor (PStr ''models/gemini-2.5-flash-embed'') [''embedContent''],
      descriptor (PStr ''models/chat-bison-001'') [''countTokens'', ''generateContentStream''],
      descriptor (PStr ''models/text-bison-001'') [''generateContent'']]"

text \<open>
  Further responses: a descriptor whose name is a list, one whose name is a number, a
  list request that times out, a
  descriptor with null methods, a refused generation request, a refused comment request
  and a generation body without candidates.
\<close>

definition list_named_models :: "pyval list" where
  "list_named_models = [descriptor (PList [PStr ''flash'']) [''generateContent'']]"

definition int_named_models :: "pyval list" where
  "int_named_models = [descriptor (PInt 7) [''generateContent'']]"

definition unreachable_world :: world where
  "unreachable_world =
     example_world (Inl (RequestException ''timed out''))
       (Inr (ok_response (generated ''- [ ] reproduce''))) (Inr (ok_response (PDict [])))"

definition null_methods :: pyval where
  "null_methods =
     PDict [(''name'', PStr ''models/gemini-2.5-flash-exp''),
            (''supportedGenerationMethods'', PNone)]"




section \<open>Auxiliary facts\<close>

lemma and_then_Inl: "and_then (Inl e) f = Inl e"
  by (simp add: and_then_def)

lemma and_then_Inr: "and_then (Inr v) f = f v"
  by (simp add: and_then_def)

lemma and_then_eq_Inr:
  "and_then r f = Inr y \<longleftrightarrow> (\<exists>v. r = Inr v \<and> f v = Inr y)"
  by (cases r) (simp_all add: and_then_def)


lemma and_then_assoc:
  "and_then (and_then r f) g = and_then r (\<lambda>v. and_then (f v) g)"
  by (cases r) (simp_all add: and_then_def)

lemma is_string_conv: "is_string v \<longleftrightarrow> (\<exists>s. v = PStr s)"
  by (cases v) simp_all

lemma names_containing_strings:
  "names_containing needle (map PStr ns) = Inr (map PStr (filter (sublist needle) ns))"
  by (induction ns) (simp_all add: and_then_Inr)

lemma names_containing_subset:
  "names_containing needle ns = Inr xs \<Longrightarrow> set xs \<subseteq> set ns"
proof (induction ns arbitrary: xs)
  case Nil
  then show ?case by simp
next
  case (Cons n ns)
  then show ?case
    by (fastforce simp: and_then_eq_Inr split: if_splits)
qed

lemma collect_names_member:
  "collect_names ms = Inr names \<Longrightarrow> v \<in> set names \<Longrightarrow>
   \<exists>m. m \<in> set ms \<and> dict_get m ''name'' PNone = Inr v \<and> truthy v \<and>
       supports_generate m = Inr True"
proof (induction ms arbitrary: names)
  case Nil
  then show ?case by simp
next
  case (Cons m ms)
  from Cons.prems(1) obtain keep where keep: "is_candidate m = Inr keep"
    by (auto simp: and_then_eq_Inr)
  show ?case
  proof (cases keep)
    case False
    with keep Cons.prems have "collect_names ms = Inr names" by (simp add: and_then_Inr)
    from Cons.IH [OF this Cons.prems(2)] show ?thesis by auto
  next
    case True
    with keep Cons.prems(1) obtain nm rest where
      nm: "dict_get m ''name'' PNone = Inr nm" and rest: "collect_names ms = Inr rest"
      and names: "names = nm # rest"
      by (auto simp: and_then_Inr and_then_eq_Inr)
    from keep True nm have ok: "truthy nm \<and> supports_generate m = Inr True"
      by (auto simp: is_candidate_def and_then_Inr split: if_splits)
    show ?thesis
    proof (cases "v = nm")
      case True
      with nm ok show ?thesis by auto
    next
      case False
      with names Cons.prems(2) have "v \<in> set rest" by simp
      from Cons.IH [OF rest this] show ?thesis by auto
    qed
  qed
qed

lemma choose_name_member:
  "choose_name names = Inr v \<Longrightarrow> v = PStr PREFERRED_MODEL \<or> v \<in> set names"
proof -
  assume "choose_name names = Inr v"
  then obtain a b c where
    a: "names_containing ''gemini-2.5-flash'' names = Inr a"
    and b: "names_containing ''flash'' names = Inr b"
    and c: "names_containing ''pro'' names = Inr c"
    and v: "v = (case a of n # _ \<Rightarrow> n | [] \<Rightarrow>
           (case b of n # _ \<Rightarrow> n | [] \<Rightarrow>
           (case c of n # _ \<Rightarrow> n | [] \<Rightarrow>
           (case names of n # _ \<Rightarrow> n | [] \<Rightarrow> PStr PREFERRED_MODEL))))"
    unfolding choose_name_def by (auto simp: and_then_eq_Inr)
  from names_containing_subset [OF a] names_containing_subset [OF b]
    names_containing_subset [OF c] v
  show ?thesis by (auto split: list.splits)
qed

lemma hd_case: "xs \<noteq> [] \<Longrightarrow> (case map PStr xs of [] \<Rightarrow> a | n # _ \<Rightarrow> n) = PStr (hd xs)"
  by (cases xs) simp_all

lemma choose_name_strings:
  "choose_name (map PStr ns) = Inr (PStr (spec_select ns))"
  by (simp add: choose_name_def names_containing_strings and_then_Inr spec_select_def
      Let_def hd_case)

lemma discover_try_names:
  "discover_try w k = and_then (fetched_names w k) choose_name"
proof (cases "fetch_models w k")
  case (Inl e)
  then show ?thesis by (simp add: discover_try_def fetched_names_def and_then_Inl)
next
  case (Inr models)
  then show ?thesis
    by (simp add: discover_try_def fetched_names_def select_model_def and_then_Inr
        and_then_assoc)
qed

lemma discover_model_Inr:
  "discover_try w k = Inr v \<Longrightarrow>
   discover_model w k = (v, [HttpGet (LIST_URL @ ''?key='' @ k)])"
  by (simp add: discover_model_def)

lemma discover_model_Inl:
  "discover_try w k = Inl e \<Longrightarrow>
   discover_model w k =
     (PStr PREFERRED_MODEL, [HttpGet (LIST_URL @ ''?key='' @ k), Print (warning e)])"
  by (simp add: discover_model_def)




lemma collect_names_append:
  "collect_names (xs @ ys) =
   and_then (collect_names xs) (\<lambda>a. and_then (collect_names ys) (\<lambda>b. Inr (a @ b)))"
proof (induction xs)
  case Nil
  show ?case by (cases "collect_names ys") (simp_all add: and_then_def)
next
  case (Cons m xs)
  show ?case
  proof (cases "is_candidate m")
    case (Inl e)
    then show ?thesis by (simp add: and_then_Inl)
  next
    case (Inr keep)
    show ?thesis
    proof (cases keep)
      case True
      with Inr obtain nm where "dict_get m ''name'' PNone = Inr nm"
        by (auto simp: is_candidate_def and_then_eq_Inr)
      with Inr True Cons.IH show ?thesis
        by (cases "collect_names xs"; cases "collect_names ys") (simp_all add: and_then_def)
    next
      case False
      with Inr Cons.IH show ?thesis by (simp add: and_then_Inr)
    qed
  qed
qed

lemma collect_names_drop:
  "is_candidate d = Inr False \<Longrightarrow> collect_names (xs @ d # ys) = collect_names (xs @ ys)"
  by (simp add: collect_names_append [of xs "d # ys"] collect_names_append [of xs ys] and_then_Inr)

lemma any_generate_strings:
  "list_all is_string xs \<Longrightarrow>
   any_generate xs = Inr (\<exists>m \<in> set (string_entries xs). sublist ''generateContent'' m)"
  by (induction xs) (auto simp: and_then_Inr is_string_conv)

lemma supports_generate_wf:
  "wf_descriptor d \<Longrightarrow>
   supports_generate d = Inr (\<exists>m \<in> set (descriptor_methods d). sublist ''generateContent'' m)"
proof (cases d)
  case (PDict kvs)
  assume wf: "wf_descriptor d"
  show ?thesis
  proof (cases "map_of kvs ''supportedGenerationMethods''")
    case None
    with PDict show ?thesis by (simp add: supports_generate_def and_then_Inr)
  next
    case (Some v)
    with wf PDict have "v = PNone \<or> (\<exists>xs. v = PList xs \<and> list_all is_string xs)"
      by (cases v) simp_all
    then show ?thesis
    proof
      assume "v = PNone"
      with PDict Some show ?thesis by (simp add: supports_generate_def and_then_Inr)
    next
      assume "\<exists>xs. v = PList xs \<and> list_all is_string xs"
      then obtain xs where v: "v = PList xs" and xs: "list_all is_string xs" by blast
      show ?thesis
      proof (cases xs)
        case Nil
        with PDict Some v show ?thesis by (simp add: supports_generate_def and_then_Inr)
      next
        case (Cons a as)
        with PDict Some v any_generate_strings [OF xs] show ?thesis
          by (simp add: supports_generate_def and_then_Inr)
      qed
    qed
  qed
qed simp_all

lemma dict_get_name_wf:
  "wf_descriptor d \<Longrightarrow>
   \<exists>nm. dict_get d ''name'' PNone = Inr nm \<and> (truthy nm \<longleftrightarrow> descriptor_name d \<noteq> []) \<and>
        (truthy nm \<longrightarrow> nm = PStr (descriptor_name d))"
proof (cases d)
  case (PDict kvs)
  assume wf: "wf_descriptor d"
  show ?thesis
  proof (cases "map_of kvs ''name''")
    case None
    with PDict show ?thesis by simp
  next
    case (Some v)
    with wf PDict have "v = PNone \<or> (\<exists>s. v = PStr s)"
      by (cases v) simp_all
    with PDict Some show ?thesis by auto
  qed
qed simp_all

lemma is_candidate_wf:
  "wf_descriptor d \<Longrightarrow> is_candidate d = Inr (spec_candidate d)"
  using dict_get_name_wf [of d] supports_generate_wf [of d]
  by (auto simp: is_candidate_def spec_candidate_def and_then_Inr)

lemma collect_names_wf:
  "list_all wf_descriptor ms \<Longrightarrow> collect_names ms = Inr (map PStr (spec_names ms))"
proof (induction ms)
  case Nil
  show ?case by (simp add: spec_names_def)
next
  case (Cons d ms)
  then have wf: "wf_descriptor d" and IH: "collect_names ms = Inr (map PStr (spec_names ms))"
    by simp_all
  from dict_get_name_wf [OF wf] obtain nm where
    nm: "dict_get d ''name'' PNone = Inr nm"
    and t: "truthy nm \<longleftrightarrow> descriptor_name d \<noteq> []"
    and v: "truthy nm \<longrightarrow> nm = PStr (descriptor_name d)" by blast
  show ?case
  proof (cases "spec_candidate d")
    case True
    then have "truthy nm" using t by (simp add: spec_candidate_def)
    with v have "nm = PStr (descriptor_name d)" by simp
    with True nm IH is_candidate_wf [OF wf] show ?thesis
      by (simp add: and_then_Inr spec_names_def)
  next
    case False
    with IH is_candidate_wf [OF wf] show ?thesis
      by (simp add: and_then_Inr spec_names_def)
  qed
qed

lemma select_model_wf:
  "list_all wf_descriptor ms \<Longrightarrow>
   select_model (PList ms) = Inr (PStr (spec_select (spec_names ms)))"
  by (simp add: select_model_def collect_names_wf choose_name_strings and_then_Inr)

lemma fetch_models_listed: "fetch_models (listed_world ds) k = Inr (PList ds)"
  by (simp add: fetch_models_def listed_world_def example_world_def ok_response_def
      raise_for_status_def listing_def and_then_Inr)

lemma discover_model_wf:
  assumes "fetch_models w k = Inr (PList ms)" and "list_all wf_descriptor ms"
  shows "discover_model w k =
         (PStr (spec_select (spec_names ms)), [HttpGet (LIST_URL @ ''?key='' @ k)])"
proof -
  from assms have "discover_try w k = Inr (PStr (spec_select (spec_names ms)))"
    by (simp add: discover_try_def and_then_Inr select_model_wf)
  then show ?thesis by (rule discover_model_Inr)
qed

lemma hd_filter_member: "filter P xs \<noteq> [] \<Longrightarrow> hd (filter P xs) \<in> set xs"
proof -
  assume "filter P xs \<noteq> []"
  then have "hd (filter P xs) \<in> set (filter P xs)" by (rule hd_in_set)
  then show ?thesis by simp
qed

lemma spec_select_member:
  "spec_select ns = PREFERRED_MODEL \<or> spec_select ns \<in> set ns"
  by (auto simp: spec_select_def Let_def hd_filter_member)

lemma spec_names_member:
  "n \<in> set (spec_names ms) \<Longrightarrow> \<exists>d \<in> set ms. spec_candidate d \<and> n = descriptor_name d"
  by (auto simp: spec_names_def)

lemma fetched_names_Inr:
  "fetched_names w k = Inr names \<longleftrightarrow>
   (\<exists>models ms. fetch_models w k = Inr models \<and> iterate models = Inr ms \<and>
               collect_names ms = Inr names)"
  by (auto simp: fetched_names_def and_then_eq_Inr)

lemma strings_map: "list_all is_string xs \<Longrightarrow> xs = map PStr (string_entries xs)"
  by (induction xs) (auto simp: is_string_conv)

lemma fetched_names_listed:
  "fetched_names (listed_world ds) k = collect_names ds"
  by (simp add: fetched_names_def fetch_models_listed and_then_Inr)

lemma generate_trace:
  "\<exists>rest. snd (generate w k t) =
     snd (discover_model w k) @
     [Print (''Sending request to Gemini with model: '' @ render w (fst (discover_model w k)) @ '' ...''),
      sent (generation_request w k (fst (discover_model w k)))] @ rest"
  by (auto simp: generate_def post_comment_def Let_def split: prod.splits sum.splits exn.splits)









section \<open>Selection among well-formed descriptors\<close>

text \<open>
  C1. When the fetch succeeds with a list of descriptors, the names of the candidates are
  split by substring into those containing \<^verbatim>\<open>gemini-2.5-flash\<close>, those containing
  \<^verbatim>\<open>flash\<close> and those containing \<^verbatim>\<open>pro\<close>, and \<open>discover_model\<close> returns the
  first name, in list order, of the first of these that is not empty. In particular, with
  no \<^verbatim>\<open>gemini-2.5-flash\<close> name and some \<^verbatim>\<open>flash\<close> name it returns the first
  \<^verbatim>\<open>flash\<close> name, whatever \<^verbatim>\<open>pro\<close> names there are.
\<close>

theorem discover_model_priority_order:
  assumes "fetch_models w api_key = Inr (PList ms)" and "list_all wf_descriptor ms"
  shows "let names = spec_names ms;
             flash_25 = filter (sublist ''gemini-2.5-flash'') names;
             flash_any = filter (sublist ''flash'') names;
             pro_any = filter (sublist ''pro'') names;
             chosen = fst (discover_model w api_key)
         in (flash_25 \<noteq> [] \<longrightarrow> chosen = PStr (hd flash_25)) \<and>
            (flash_25 = [] \<and> flash_any \<noteq> [] \<longrightarrow> chosen = PStr (hd flash_any)) \<and>
            (flash_25 = [] \<and> flash_any = [] \<and> pro_any \<noteq> [] \<longrightarrow> chosen = PStr (hd pro_any))"
  by (simp add: discover_model_wf [OF assms] spec_select_def Let_def)

theorem discover_model_priority_order_witness:
  "fetch_models (listed_world generic_models) ''K'' = Inr (PList generic_models) \<and>
   list_all wf_descriptor generic_models \<and>
   fst (discover_model (listed_world generic_models) ''K'') = PStr ''models/gemini-1.5-flash''"
proof -
  have wf: "list_all wf_descriptor generic_models"
    by (simp add: generic_models_def descriptor_def)
  have names: "spec_names generic_models =
     [''models/gemini-1.0-pro'', ''models/gemini-1.5-flash'', ''models/gemini-2.0-flash'']"
    by code_simp
  have a: "filter (sublist ''gemini-2.5-flash'')
     [''models/gemini-1.0-pro'', ''models/gemini-1.5-flash'', ''models/gemini-2.0-flash''] = []"
    by code_simp
  have b: "filter (sublist ''flash'')
     [''models/gemini-1.0-pro'', ''models/gemini-1.5-flash'', ''models/gemini-2.0-flash'']
     = [''models/gemini-1.5-flash'', ''models/gemini-2.0-flash'']"
    by code_simp
  from discover_model_priority_order [OF fetch_models_listed wf, of "''K''"]
  have "fst (discover_model (listed_world generic_models) ''K'') = PStr ''models/gemini-1.5-flash''"
    unfolding names Let_def a b by simp
  with wf fetch_models_listed show ?thesis by simp
qed

text \<open>
  C4. A descriptor passes the condition of the comprehension exactly when it has a name
  that is not empty and one of its methods contains \<^verbatim>\<open>generateContent\<close> as a
  substring; the collected names are the names of these descriptors, in order; and what
  \<open>discover_model\<close> returns from a fetched list is the fallback constant or the name of
  such a descriptor, never a name taken from a descriptor that lacks the method.
\<close>

theorem candidate_iff_named_and_generate:
  "(wf_descriptor d \<longrightarrow>
      is_candidate d =
        Inr (descriptor_name d \<noteq> [] \<and>
             (\<exists>m \<in> set (descriptor_methods d). sublist ''generateContent'' m))) \<and>
   (list_all wf_descriptor ms \<longrightarrow>
      collect_names ms = Inr (map (\<lambda>d. PStr (descriptor_name d)) (filter spec_candidate ms))) \<and>
   (list_all wf_descriptor ms \<and> fetch_models w api_key = Inr (PList ms) \<longrightarrow>
      fst (discover_model w api_key) = PStr PREFERRED_MODEL \<or>
      (\<exists>d \<in> set ms. spec_candidate d \<and>
                     fst (discover_model w api_key) = PStr (descriptor_name d)))"
proof (intro conjI impI)
  assume "wf_descriptor d"
  then show "is_candidate d =
        Inr (descriptor_name d \<noteq> [] \<and>
             (\<exists>m \<in> set (descriptor_methods d). sublist ''generateContent'' m))"
    by (simp add: is_candidate_wf spec_candidate_def)
next
  assume "list_all wf_descriptor ms"
  then show "collect_names ms =
      Inr (map (\<lambda>d. PStr (descriptor_name d)) (filter spec_candidate ms))"
    by (simp add: collect_names_wf spec_names_def comp_def)
next
  assume a: "list_all wf_descriptor ms \<and> fetch_models w api_key = Inr (PList ms)"
  then have r: "fst (discover_model w api_key) = PStr (spec_select (spec_names ms))"
    by (simp add: discover_model_wf)
  from spec_select_member [of "spec_names ms"]
  show "fst (discover_model w api_key) = PStr PREFERRED_MODEL \<or>
      (\<exists>d \<in> set ms. spec_candidate d \<and>
                     fst (discover_model w api_key) = PStr (descriptor_name d))"
  proof
    assume "spec_select (spec_names ms) = PREFERRED_MODEL"
    with r show ?thesis by simp
  next
    assume "spec_select (spec_names ms) \<in> set (spec_names ms)"
    from spec_names_member [OF this] r show ?thesis by auto
  qed
qed

theorem candidate_iff_named_and_generate_witness:
  "list_all wf_descriptor bison_models \<and>
   fetch_models (listed_world bison_models) ''K'' = Inr (PList bison_models) \<and>
   is_candidate (descriptor (PStr ''models/gemini-2.5-flash-embed'') [''embedContent''])
     = Inr False \<and>
   is_candidate (descriptor (PStr ''models/chat-bison-001'')
                   [''countTokens'', ''generateContentStream'']) = Inr True \<and>
   collect_names bison_models
     = Inr [PStr ''models/chat-bison-001'', PStr ''models/text-bison-001''] \<and>
   fst (discover_model (listed_world bison_models) ''K'') = PStr ''models/chat-bison-001''"
proof -
  have wf: "list_all wf_descriptor bison_models"
    by (simp add: bison_models_def descriptor_def)
  have wf1: "wf_descriptor (descriptor (PStr ''models/gemini-2.5-flash-embed'') [''embedContent''])"
    by (simp add: descriptor_def)
  have wf2: "wf_descriptor (descriptor (PStr ''models/chat-bison-001'')
                   [''countTokens'', ''generateContentStream''])"
    by (simp add: descriptor_def)
  have n1: "\<not> (descriptor_name (descriptor (PStr ''models/gemini-2.5-flash-embed'') [''embedContent'']) \<noteq> [] \<and>
             (\<exists>m \<in> set (descriptor_methods (descriptor (PStr ''models/gemini-2.5-flash-embed'') [''embedContent''])). sublist ''generateContent'' m))"
    by code_simp
  have n2: "descriptor_name (descriptor (PStr ''models/chat-bison-001'')
                   [''countTokens'', ''generateContentStream'']) \<noteq> [] \<and>
             (\<exists>m \<in> set (descriptor_methods (descriptor (PStr ''models/chat-bison-001'')
                   [''countTokens'', ''generateContentStream''])). sublist ''generateContent'' m)"
    by code_simp
  have f: "map (\<lambda>d. PStr (descriptor_name d)) (filter spec_candidate bison_models)
     = [PStr ''models/chat-bison-001'', PStr ''models/text-bison-001'']"
    by code_simp
  have c1: "is_candidate (descriptor (PStr ''models/gemini-2.5-flash-embed'') [''embedContent''])
     = Inr False"
    using candidate_iff_named_and_generate
      [of "descriptor (PStr ''models/gemini-2.5-flash-embed'') [''embedContent'']"] wf1 n1
    by simp
  have c2: "is_candidate (descriptor (PStr ''models/chat-bison-001'')
                   [''countTokens'', ''generateContentStream'']) = Inr True"
    using candidate_iff_named_and_generate
      [of "descriptor (PStr ''models/chat-bison-001'')
                   [''countTokens'', ''generateContentStream'']"] wf2 n2
    by simp
  have c3: "collect_names bison_models
     = Inr [PStr ''models/chat-bison-001'', PStr ''models/text-bison-001'']"
    using candidate_iff_named_and_generate [of _ bison_models] wf f by simp
  have c4: "fst (discover_model (listed_world bison_models) ''K'') = PStr ''models/chat-bison-001''"
    by code_simp
  from wf fetch_models_listed c1 c2 c3 c4 show ?thesis by simp
qed

text \<open>
  C6. When the fetch succeeds, there are candidates, and no candidate name contains
  \<^verbatim>\<open>gemini-2.5-flash\<close>, \<^verbatim>\<open>flash\<close> or \<^verbatim>\<open>pro\<close>, \<open>discover_model\<close> returns
  the first candidate name in list order.
\<close>

theorem discover_model_first_candidate:
  assumes "fetch_models w api_key = Inr (PList ms)" and "list_all wf_descriptor ms"
    and "spec_names ms \<noteq> []"
    and "\<forall>n \<in> set (spec_names ms).
           \<not> sublist ''gemini-2.5-flash'' n \<and> \<not> sublist ''flash'' n \<and> \<not> sublist ''pro'' n"
  shows "fst (discover_model w api_key) = PStr (hd (spec_names ms))"
proof -
  from assms(4) have "filter (sublist ''gemini-2.5-flash'') (spec_names ms) = []"
    and "filter (sublist ''flash'') (spec_names ms) = []"
    and "filter (sublist ''pro'') (spec_names ms) = []"
    by (simp_all add: filter_empty_conv)
  with assms(3) show ?thesis
    by (simp add: discover_model_wf [OF assms(1,2)] spec_select_def)
qed

theorem discover_model_first_candidate_witness:
  "fetch_models (listed_world bison_models) ''K'' = Inr (PList bison_models) \<and>
   list_all wf_descriptor bison_models \<and>
   spec_names bison_models = [''models/chat-bison-001'', ''models/text-bison-001''] \<and>
   fst (discover_model (listed_world bison_models) ''K'') = PStr ''models/chat-bison-001''"
proof -
  have wf: "list_all wf_descriptor bison_models"
    by (simp add: bison_models_def descriptor_def)
  have names: "spec_names bison_models = [''models/chat-bison-001'', ''models/text-bison-001'']"
    by code_simp
  have none: "\<forall>n \<in> set [''models/chat-bison-001'', ''models/text-bison-001''].
           \<not> sublist ''gemini-2.5-flash'' n \<and> \<not> sublist ''flash'' n \<and> \<not> sublist ''pro'' n"
    by code_simp
  from discover_model_first_candidate [OF fetch_models_listed wf, of "''K''"] names none
  have "fst (discover_model (listed_world bison_models) ''K'') = PStr ''models/chat-bison-001''"
    by simp
  with wf names fetch_models_listed show ?thesis by simp
qed


text \<open>
  C10. For a descriptor whose \<^verbatim>\<open>supportedGenerationMethods\<close> is absent or null,
  \<open>supports_generate\<close> returns false and raises nothing, as it does when the entry is
  the empty list; the descriptor is not a candidate, and the selection from a list is the
  same with the descriptor as without it.
\<close>

theorem supports_generate_without_methods:
  assumes "map_of kvs ''supportedGenerationMethods'' = None \<or>
           map_of kvs ''supportedGenerationMethods'' = Some PNone"
  shows "supports_generate (PDict kvs) = Inr False \<and>
         supports_generate (PDict kvs) =
           supports_generate (PDict ((''supportedGenerationMethods'', PList []) # kvs)) \<and>
         is_candidate (PDict kvs) = Inr False \<and>
         collect_names (before @ PDict kvs # after) = collect_names (before @ after) \<and>
         select_model (PList (before @ PDict kvs # after)) = select_model (PList (before @ after))"
proof -
  from assms have s: "supports_generate (PDict kvs) = Inr False"
    by (auto simp: supports_generate_def and_then_Inr)
  have e: "supports_generate (PDict ((''supportedGenerationMethods'', PList []) # kvs)) = Inr False"
    by (simp add: supports_generate_def and_then_Inr)
  from s have c: "is_candidate (PDict kvs) = Inr False"
    by (simp add: is_candidate_def and_then_Inr)
  from c have d: "collect_names (before @ PDict kvs # after) = collect_names (before @ after)"
    by (rule collect_names_drop)
  from s e c d show ?thesis by (simp add: select_model_def and_then_Inr)
qed

theorem supports_generate_without_methods_witness:
  "supports_generate null_methods = Inr False \<and>
   select_model (PList (null_methods # scenario_models)) = select_model (PList scenario_models) \<and>
   select_model (PList (null_methods # scenario_models)) = Inr (PStr ''models/gemini-2.5-flash-001'') \<and>
   supports_generate (PDict [(''name'', PStr ''models/aqa'')]) = Inr False"
proof -
  have k: "map_of [(''name'', PStr ''models/gemini-2.5-flash-exp''),
            (''supportedGenerationMethods'', PNone)] ''supportedGenerationMethods'' = None \<or>
     map_of [(''name'', PStr ''models/gemini-2.5-flash-exp''),
            (''supportedGenerationMethods'', PNone)] ''supportedGenerationMethods'' = Some PNone"
    by simp
  have k2: "map_of [(''name'', PStr ''models/aqa'')] ''supportedGenerationMethods'' = None \<or>
     map_of [(''name'', PStr ''models/aqa'')] ''supportedGenerationMethods'' = Some PNone"
    by simp
  have v: "select_model (PList scenario_models) = Inr (PStr ''models/gemini-2.5-flash-001'')"
    by code_simp
  from supports_generate_without_methods [OF k, of "[]" scenario_models]
    supports_generate_without_methods [OF k2, of "[]" "[]"] v
  show ?thesis by (simp add: null_methods_def)
qed


section \<open>The fallback\<close>

text \<open>
  C2 as it is stated fails on the empty list: the fetch succeeds with no descriptors, the
  fallback is returned, and the only event of the call is the request. Nothing is printed.
\<close>

theorem empty_list_no_diagnostic:
  "fetched_names (listed_world []) ''K'' = Inr [] \<and>
   discover_model (listed_world []) ''K'' =
     (PStr ''models/gemini-2.5-flash'',
      [HttpGet ''https://generativelanguage.googleapis.com/v1beta/models?key=K''])"
proof -
  have "fetched_names (listed_world []) ''K'' = Inr []"
    by (simp add: fetched_names_listed)
  moreover from this have "discover_try (listed_world []) ''K'' = Inr (PStr PREFERRED_MODEL)"
    by (simp add: discover_try_names and_then_Inr choose_name_def)
  ultimately show ?thesis
    by (simp add: discover_model_def PREFERRED_MODEL_def LIST_URL_def)
qed

text \<open>
  C2, amended. When the collected names are empty (a fetched list without candidates, the
  empty list among them), \<open>discover_model\<close> returns \<^verbatim>\<open>models/gemini-2.5-flash\<close> and
  prints nothing. When the fetch or the selection raises, it returns the same constant and
  prints one warning, which names the constant and the text of the exception.
\<close>

theorem discover_model_fallback:
  "(fetched_names w api_key = Inr [] \<longrightarrow>
      discover_model w api_key =
        (PStr PREFERRED_MODEL, [HttpGet (LIST_URL @ ''?key='' @ api_key)])) \<and>
   (fetch_models w api_key = Inr (PList ms) \<and> list_all wf_descriptor ms \<and> spec_names ms = [] \<longrightarrow>
      discover_model w api_key =
        (PStr PREFERRED_MODEL, [HttpGet (LIST_URL @ ''?key='' @ api_key)])) \<and>
   (fetch_models w api_key = Inl e \<or> discover_try w api_key = Inl e \<longrightarrow>
      discover_model w api_key =
        (PStr PREFERRED_MODEL,
         [HttpGet (LIST_URL @ ''?key='' @ api_key),
          Print (''Warning: model discovery failed, defaulting to '' @ PREFERRED_MODEL
                 @ ''. Error: '' @ str_exn e)])) \<and>
   PREFERRED_MODEL = ''models/gemini-2.5-flash''"
proof (intro conjI impI)
  assume "fetched_names w api_key = Inr []"
  then have "discover_try w api_key = Inr (PStr PREFERRED_MODEL)"
    by (simp add: discover_try_names and_then_Inr choose_name_def)
  then show "discover_model w api_key =
        (PStr PREFERRED_MODEL, [HttpGet (LIST_URL @ ''?key='' @ api_key)])"
    by (rule discover_model_Inr)
next
  assume "fetch_models w api_key = Inr (PList ms) \<and> list_all wf_descriptor ms \<and> spec_names ms = []"
  then show "discover_model w api_key =
        (PStr PREFERRED_MODEL, [HttpGet (LIST_URL @ ''?key='' @ api_key)])"
    by (simp add: discover_model_wf spec_select_def)
next
  assume "fetch_models w api_key = Inl e \<or> discover_try w api_key = Inl e"
  then have "discover_try w api_key = Inl e"
    by (auto simp: discover_try_def and_then_Inl)
  then show "discover_model w api_key =
        (PStr PREFERRED_MODEL,
         [HttpGet (LIST_URL @ ''?key='' @ api_key),
          Print (''Warning: model discovery failed, defaulting to '' @ PREFERRED_MODEL
                 @ ''. Error: '' @ str_exn e)])"
    by (simp add: discover_model_Inl warning_def)
next
  show "PREFERRED_MODEL = ''models/gemini-2.5-flash''" by (simp add: PREFERRED_MODEL_def)
qed

theorem discover_model_fallback_witness:
  "fetched_names (listed_world [null_methods]) ''K'' = Inr [] \<and>
   discover_model (listed_world [null_methods]) ''K'' =
     (PStr ''models/gemini-2.5-flash'',
      [HttpGet ''https://generativelanguage.googleapis.com/v1beta/models?key=K'']) \<and>
   fetch_models unreachable_world ''K'' = Inl (RequestException ''timed out'') \<and>
   discover_model unreachable_world ''K'' =
     (PStr ''models/gemini-2.5-flash'',
      [HttpGet ''https://generativelanguage.googleapis.com/v1beta/models?key=K'',
       Print ''Warning: model discovery failed, defaulting to models/gemini-2.5-flash. Error: timed out''])"
proof -
  have a: "fetched_names (listed_world [null_methods]) ''K'' = Inr []"
    by code_simp
  have b: "fetch_models unreachable_world ''K'' = Inl (RequestException ''timed out'')"
    by code_simp
  from discover_model_fallback [of "listed_world [null_methods]" "''K''"] a
  have c: "discover_model (listed_world [null_methods]) ''K'' =
     (PStr ''models/gemini-2.5-flash'',
      [HttpGet ''https://generativelanguage.googleapis.com/v1beta/models?key=K''])"
    by (simp add: PREFERRED_MODEL_def LIST_URL_def)
  from discover_model_fallback [of unreachable_world "''K''" _ "RequestException ''timed out''"] b
  have d: "discover_model unreachable_world ''K'' =
     (PStr ''models/gemini-2.5-flash'',
      [HttpGet ''https://generativelanguage.googleapis.com/v1beta/models?key=K'',
       Print ''Warning: model discovery failed, defaulting to models/gemini-2.5-flash. Error: timed out''])"
    by (simp add: PREFERRED_MODEL_def LIST_URL_def)
  from a b c d show ?thesis by simp
qed

text \<open>
  C3. An exception raised by the request, by the status check, by the parse of the body,
  by the lookup of \<^verbatim>\<open>models\<close> or anywhere in the selection is an exception of the
  \<^verbatim>\<open>try\<close>; \<open>discover_model\<close> then returns \<^verbatim>\<open>models/gemini-2.5-flash\<close> with
  the warning, and the run goes on to send the generation request for that model.
\<close>

theorem discover_model_catches:
  "(http_get w (LIST_URL @ ''?key='' @ api_key) = Inl e \<longrightarrow> discover_try w api_key = Inl e) \<and>
   (\<forall>resp. http_get w (LIST_URL @ ''?key='' @ api_key) = Inr resp \<and>
           raise_for_status resp = Inl e \<longrightarrow> discover_try w api_key = Inl e) \<and>
   (\<forall>resp. http_get w (LIST_URL @ ''?key='' @ api_key) = Inr resp \<and>
           raise_for_status resp = Inr () \<and> resp_json resp = Inl e
           \<longrightarrow> discover_try w api_key = Inl e) \<and>
   (\<forall>resp body. http_get w (LIST_URL @ ''?key='' @ api_key) = Inr resp \<and>
           raise_for_status resp = Inr () \<and> resp_json resp = Inr body \<and>
           dict_get body ''models'' (PList []) = Inl e \<longrightarrow> discover_try w api_key = Inl e) \<and>
   (\<forall>models. fetch_models w api_key = Inr models \<and> select_model models = Inl e
           \<longrightarrow> discover_try w api_key = Inl e) \<and>
   (discover_try w api_key = Inl e \<longrightarrow>
      discover_model w api_key =
        (PStr PREFERRED_MODEL, [HttpGet (LIST_URL @ ''?key='' @ api_key), Print (warning e)]) \<and>
      (\<exists>rest. snd (generate w api_key gh_token) =
         [HttpGet (LIST_URL @ ''?key='' @ api_key), Print (warning e),
          Print (''Sending request to Gemini with model: '' @ PREFERRED_MODEL @ '' ...''),
          sent (generation_request w api_key (PStr PREFERRED_MODEL))] @ rest))"
proof (intro conjI impI allI)
  assume "http_get w (LIST_URL @ ''?key='' @ api_key) = Inl e"
  then show "discover_try w api_key = Inl e"
    by (simp add: discover_try_def fetch_models_def and_then_Inl)
next
  fix resp
  assume "http_get w (LIST_URL @ ''?key='' @ api_key) = Inr resp \<and> raise_for_status resp = Inl e"
  then show "discover_try w api_key = Inl e"
    by (simp add: discover_try_def fetch_models_def and_then_Inl and_then_Inr)
next
  fix resp
  assume "http_get w (LIST_URL @ ''?key='' @ api_key) = Inr resp \<and>
           raise_for_status resp = Inr () \<and> resp_json resp = Inl e"
  then show "discover_try w api_key = Inl e"
    by (simp add: discover_try_def fetch_models_def and_then_Inl and_then_Inr)
next
  fix resp body
  assume "http_get w (LIST_URL @ ''?key='' @ api_key) = Inr resp \<and>
           raise_for_status resp = Inr () \<and> resp_json resp = Inr body \<and>
           dict_get body ''models'' (PList []) = Inl e"
  then show "discover_try w api_key = Inl e"
    by (simp add: discover_try_def fetch_models_def and_then_Inl and_then_Inr)
next
  fix models
  assume "fetch_models w api_key = Inr models \<and> select_model models = Inl e"
  then show "discover_try w api_key = Inl e"
    by (simp add: discover_try_def and_then_Inr)
next
  assume "discover_try w api_key = Inl e"
  then show "discover_model w api_key =
        (PStr PREFERRED_MODEL, [HttpGet (LIST_URL @ ''?key='' @ api_key), Print (warning e)])"
    by (rule discover_model_Inl)
next
  assume "discover_try w api_key = Inl e"
  then have d: "discover_model w api_key =
        (PStr PREFERRED_MODEL, [HttpGet (LIST_URL @ ''?key='' @ api_key), Print (warning e)])"
    by (rule discover_model_Inl)
  from generate_trace [of w api_key gh_token]
  show "\<exists>rest. snd (generate w api_key gh_token) =
         [HttpGet (LIST_URL @ ''?key='' @ api_key), Print (warning e),
          Print (''Sending request to Gemini with model: '' @ PREFERRED_MODEL @ '' ...''),
          sent (generation_request w api_key (PStr PREFERRED_MODEL))] @ rest"
    by (simp add: d render_def)
qed

theorem discover_model_catches_witness:
  "http_get unreachable_world (LIST_URL @ ''?key=K'') = Inl (RequestException ''timed out'') \<and>
   discover_model unreachable_world ''K'' =
     (PStr ''models/gemini-2.5-flash'',
      [HttpGet ''https://generativelanguage.googleapis.com/v1beta/models?key=K'',
       Print ''Warning: model discovery failed, defaulting to models/gemini-2.5-flash. Error: timed out''])"
proof -
  have a: "http_get unreachable_world (LIST_URL @ ''?key='' @ ''K'') = Inl (RequestException ''timed out'')"
    by (simp add: unreachable_world_def example_world_def)
  from discover_model_catches [of unreachable_world "''K''" "RequestException ''timed out''"] a
  have "discover_model unreachable_world ''K'' =
        (PStr PREFERRED_MODEL, [HttpGet (LIST_URL @ ''?key='' @ ''K''),
           Print (warning (RequestException ''timed out''))])"
    by blast
  with a show ?thesis
    by (simp add: PREFERRED_MODEL_def LIST_URL_def warning_def)
qed

text \<open>
  C5. The signature of \<open>discover_model\<close> promises a string, and so does the invariant of
  the specification. The function does not keep the promise when a name in the fetched
  body is a list: the membership test of \<^verbatim>\<open>in\<close> succeeds on it, nothing raises, and
  the list itself is returned. A name that is a number takes the other way: the test
  raises \<^verbatim>\<open>TypeError\<close>, the handler prints the warning and the constant is returned.
\<close>

theorem list_name_returned:
  "fst (discover_model (listed_world list_named_models) ''K'') = PList [PStr ''flash''] \<and>
   \<not> is_string (fst (discover_model (listed_world list_named_models) ''K'')) \<and>
   discover_model (listed_world int_named_models) ''K'' =
     (PStr ''models/gemini-2.5-flash'',
      [HttpGet ''https://generativelanguage.googleapis.com/v1beta/models?key=K'',
       Print (''Warning: model discovery failed, defaulting to models/gemini-2.5-flash. ''
              @ ''Error: argument of type '' @ [CHR 0x27] @ ''int'' @ [CHR 0x27]
              @ '' is not iterable'')])"
  by code_simp

text \<open>
  On every other outcome the string is there: when every name collected from the fetched
  body is a string, and when the fetch or the collection raises, the returned value is a
  string that is not empty.
\<close>

lemma discover_model_string_result:
  assumes "\<forall>names. fetched_names w api_key = Inr names \<longrightarrow> list_all is_string names"
  shows "\<exists>s. fst (discover_model w api_key) = PStr s \<and> s \<noteq> []"
proof (cases "fetched_names w api_key")
  case (Inl e)
  then have "discover_try w api_key = Inl e"
    by (simp add: discover_try_names and_then_Inl)
  then show ?thesis
    by (simp add: discover_model_Inl PREFERRED_MODEL_def)
next
  case (Inr names)
  with assms have "list_all is_string names" by simp
  then have names: "names = map PStr (string_entries names)" by (rule strings_map)
  let ?ns = "string_entries names"
  from Inr names have "discover_try w api_key = Inr (PStr (spec_select ?ns))"
    using choose_name_strings [of ?ns] by (simp add: discover_try_names and_then_Inr)
  then have r: "fst (discover_model w api_key) = PStr (spec_select ?ns)"
    by (simp add: discover_model_Inr)
  from spec_select_member [of ?ns] have "spec_select ?ns \<noteq> []"
  proof
    assume "spec_select ?ns = PREFERRED_MODEL"
    then show ?thesis by (simp add: PREFERRED_MODEL_def)
  next
    assume "spec_select ?ns \<in> set ?ns"
    then have "PStr (spec_select ?ns) \<in> set (map PStr ?ns)" by simp
    with names have mem: "PStr (spec_select ?ns) \<in> set names" by simp
    from Inr obtain ms where "collect_names ms = Inr names"
      by (auto simp: fetched_names_Inr)
    from collect_names_member [OF this mem] show ?thesis by auto
  qed
  with r show ?thesis by simp
qed

lemma discover_model_string_result_wf:
  assumes "fetch_models w api_key = Inr (PList ms)" and "list_all wf_descriptor ms"
  shows "\<exists>s. fst (discover_model w api_key) = PStr s \<and> s \<noteq> []"
proof (rule discover_model_string_result, intro allI impI)
  fix names
  assume "fetched_names w api_key = Inr names"
  with assms have "names = map PStr (spec_names ms)"
    by (simp add: fetched_names_def and_then_Inr collect_names_wf)
  then show "list_all is_string names" by (simp add: list_all_iff)
qed

text \<open>
  C9. What \<open>discover_model\<close> returns is the constant \<^verbatim>\<open>models/gemini-2.5-flash\<close> or
  an element of the collected names, which is the \<^verbatim>\<open>name\<close> of an element of the
  fetched list for which \<open>supports_generate\<close> returned true.
\<close>

theorem returned_name_is_fallback_or_candidate:
  "fst (discover_model w api_key) = PStr PREFERRED_MODEL \<or>
   (\<exists>models ms names m.
      fetch_models w api_key = Inr models \<and> iterate models = Inr ms \<and>
      collect_names ms = Inr names \<and> fst (discover_model w api_key) \<in> set names \<and>
      m \<in> set ms \<and> dict_get m ''name'' PNone = Inr (fst (discover_model w api_key)) \<and>
      supports_generate m = Inr True)"
proof (cases "discover_try w api_key")
  case (Inl e)
  then show ?thesis by (simp add: discover_model_Inl)
next
  case (Inr v)
  then have r: "fst (discover_model w api_key) = v" by (simp add: discover_model_Inr)
  from Inr obtain names where n: "fetched_names w api_key = Inr names"
    and c: "choose_name names = Inr v"
    by (auto simp: discover_try_names and_then_eq_Inr)
  from n obtain models ms where f: "fetch_models w api_key = Inr models"
    and i: "iterate models = Inr ms" and cn: "collect_names ms = Inr names"
    by (auto simp: fetched_names_Inr)
  from choose_name_member [OF c] show ?thesis
  proof
    assume "v = PStr PREFERRED_MODEL"
    with r show ?thesis by simp
  next
    assume mem: "v \<in> set names"
    from collect_names_member [OF cn mem] obtain m where
      "m \<in> set ms" "dict_get m ''name'' PNone = Inr v" "supports_generate m = Inr True"
      by blast
    with f i cn mem r show ?thesis by blast
  qed
qed

theorem returned_name_is_fallback_or_candidate_witness:
  "fst (discover_model (listed_world scenario_models) ''K'') = PStr ''models/gemini-2.5-flash-001'' \<and>
   (\<exists>m. m \<in> set scenario_models \<and>
        dict_get m ''name'' PNone = Inr (PStr ''models/gemini-2.5-flash-001'') \<and>
        supports_generate m = Inr True)"
proof -
  have v: "fst (discover_model (listed_world scenario_models) ''K'')
     = PStr ''models/gemini-2.5-flash-001''"
    by code_simp
  have it: "iterate (PList scenario_models) = Inr scenario_models" by simp
  from returned_name_is_fallback_or_candidate [of "listed_world scenario_models" "''K''"]
  have "\<exists>m. m \<in> set scenario_models \<and>
        dict_get m ''name'' PNone = Inr (PStr ''models/gemini-2.5-flash-001'') \<and>
        supports_generate m = Inr True"
    unfolding v fetch_models_listed by (auto simp: PREFERRED_MODEL_def)
  with v show ?thesis by simp
qed

section \<open>Exit of the run\<close>

text \<open>
  C7. When \<^verbatim>\<open>GEMINI_API_KEY\<close> or \<^verbatim>\<open>GITHUB_TOKEN\<close> is unset (or empty), \<open>main\<close>
  prints its message and calls \<^verbatim>\<open>sys.exit(1)\<close>; the message is the only event of the
  run, so no request has been made.
\<close>

theorem main_missing_credentials:
  assumes "environ w ''GEMINI_API_KEY'' = None \<or> environ w ''GITHUB_TOKEN'' = None \<or>
           environ w ''GEMINI_API_KEY'' = Some [] \<or> environ w ''GITHUB_TOKEN'' = Some []"
  shows "main w = (SysExit 1, [Print ''Missing GEMINI_API_KEY or GITHUB_TOKEN'']) \<and>
         exit_status (fst (main w)) = 1"
  using assms by (auto simp: main_def split: option.splits)

theorem main_missing_credentials_witness:
  "environ (unreachable_world\<lparr>environ := example_env(''GITHUB_TOKEN'' := None)\<rparr>) ''GITHUB_TOKEN'' = None \<and>
   main (unreachable_world\<lparr>environ := example_env(''GITHUB_TOKEN'' := None)\<rparr>)
     = (SysExit 1, [Print ''Missing GEMINI_API_KEY or GITHUB_TOKEN''])"
proof -
  have a: "environ (unreachable_world\<lparr>environ := example_env(''GITHUB_TOKEN'' := None)\<rparr>) ''GITHUB_TOKEN'' = None"
    by simp
  from main_missing_credentials [of "unreachable_world\<lparr>environ := example_env(''GITHUB_TOKEN'' := None)\<rparr>"] a
  show ?thesis by simp
qed






end
